theory Spec2Isabelle
  imports Complex_Main "HOL-Library.Sublist"
begin

section \<open>Strings and numbers of the source\<close>

text \<open>
  A Python \<open>str\<close> is a sequence of Unicode code points, so it is modelled as a list of
  code points. The pound and euro signs of \<open>parse_price\<close> do not fit an 8-bit
  character, which is why \<open>string\<close> is not used for program text. \<open>ustr\<close> embeds an
  ASCII literal.

  A Python \<open>float\<close> obtained from a decimal numeral is modelled by the rational number
  the numeral denotes. Comparison of finite floats is comparison of their values, and the
  ranking code only compares prices (and adds a price to the integer zero), so for prices
  the abstraction is exact for everything but rounding of long numerals and their
  overflow to infinity; \<open>float\<close> of a string of digits is never NaN.

  A price ceiling comes from the oracle's JSON, where \<open>json.loads\<close> also accepts
  \<open>NaN\<close>, \<open>Infinity\<close> and \<open>-Infinity\<close>. Such a float is a \<open>pyfloat\<close>; \<open>float_gt\<close> and
  \<open>float_le\<close> are Python's \<open>x > y\<close> and \<open>x <= y\<close> for a finite \<open>x\<close>: both are false
  when \<open>y\<close> is NaN.
\<close>

type_synonym ustring = "nat list"

datatype pyfloat = Number rat | PosInf | NegInf | NaN

definition float_gt :: "rat \<Rightarrow> pyfloat \<Rightarrow> bool" where
  "float_gt x y =
     (case y of Number m \<Rightarrow> m < x | PosInf \<Rightarrow> False | NegInf \<Rightarrow> True | NaN \<Rightarrow> False)"

definition float_le :: "rat \<Rightarrow> pyfloat \<Rightarrow> bool" where
  "float_le x y =
     (case y of Number m \<Rightarrow> x \<le> m | PosInf \<Rightarrow> True | NegInf \<Rightarrow> False | NaN \<Rightarrow> False)"

definition ustr :: "string \<Rightarrow> ustring" where
  "ustr s = map of_char s"

definition dot :: nat where "dot = 46"
definition dollar :: nat where "dollar = 36"
definition pound :: nat where "pound = 163"
definition euro :: nat where "euro = 8364"

definition is_digit :: "nat \<Rightarrow> bool" where
  \<comment> \<open>the class \<open>[0-9]\<close>\<close>
  "is_digit c = (48 \<le> c \<and> c \<le> 57)"

definition is_space :: "nat \<Rightarrow> bool" where
  \<comment> \<open>the class \<open>\s\<close> of a \<open>str\<close> pattern: Unicode white space\<close>
  "is_space c = (c \<in> set ([9, 10, 11, 12, 13, 28, 29, 30, 31, 32, 133, 160, 5760]
       @ [8192 ..< 8203] @ [8232, 8233, 8239, 8287, 12288]))"

definition is_currency :: "nat \<Rightarrow> bool" where
  \<comment> \<open>the class \<open>[\<pounds>$\<euro>]\<close>\<close>
  "is_currency c = (c = pound \<or> c = dollar \<or> c = euro)"

definition lower_cp :: "nat \<Rightarrow> nat" where
  "lower_cp c = (if 65 \<le> c \<and> c \<le> 90 then c + 32 else c)"

text \<open>
  \<open>str.lower\<close> is a built-in of Python that follows the Unicode case tables. In \<open>rank\<close>
  it is a parameter, so that what is proved holds for the built-in. \<open>lower\<close> is its
  restriction to the ASCII letters and agrees with it on ASCII text. The planner's
  fallback only asks whether the lowered request contains \<open>amazon\<close>, \<open>ebay\<close> or
  \<open>walmart\<close>; the built-in maps a code point beyond ASCII to ASCII letters in two cases
  only (U+0130 gives \<open>i\<close> and a combining dot, U+212A gives \<open>k\<close>), neither letter
  occurs in the three names, so there \<open>lower\<close> gives the same answers as the built-in.
\<close>

definition lower :: "ustring \<Rightarrow> ustring" where
  "lower s = map lower_cp s"

definition digits_value :: "ustring \<Rightarrow> nat" where
  "digits_value ds = foldl (\<lambda>a d. 10 * a + (d - 48)) 0 ds"

definition float_of :: "ustring \<Rightarrow> rat" where
  \<comment> \<open>\<open>float(s)\<close> for \<open>s\<close> made of digits, optionally followed by a point and digits\<close>
  "float_of s =
     (let ip = takeWhile is_digit s;
          fp = (case dropWhile is_digit s of [] \<Rightarrow> [] | _ # f \<Rightarrow> f)
      in of_nat (digits_value ip) + of_nat (digits_value fp) / 10 ^ length fp)"


section \<open>Data classes\<close>

record Product =
  title :: ustring
  price :: "rat option"
  currency :: "ustring option"
  url :: ustring
  store :: ustring
  extra :: "(ustring \<times> ustring) list option"


section \<open>Utilities: \<open>parse_price\<close>\<close>

text \<open>
  One attempt of the pattern \<open>([\<pounds>$\<euro>])?\s*([0-9]+(?:\.[0-9]{1,2})?)\<close> at the start of
  \<open>s\<close>, giving the two groups. Every quantifier is greedy and none of them can give
  a character back to a later part of the pattern: after the optional symbol the next
  character would be the symbol itself, after the white space it would be white space,
  and the digits and the fraction are followed by nothing. So the attempt is
  deterministic: take the symbol if there is one, skip all white space, require a digit,
  take all digits, then a point with one or two digits if they are there.
\<close>

definition match_price_at :: "ustring \<Rightarrow> (ustring option \<times> ustring) option" where
  "match_price_at s =
     (let (g1, r1) = (case s of [] \<Rightarrow> (None, s)
                      | c # t \<Rightarrow> if is_currency c then (Some [c], t) else (None, s));
          r2 = dropWhile is_space r1;
          ip = takeWhile is_digit r2;
          r3 = dropWhile is_digit r2
      in if ip = [] then None
         else (case r3 of
                 [] \<Rightarrow> Some (g1, ip)
               | d # r4 \<Rightarrow>
                   (let fr = takeWhile is_digit (take 2 r4)
                    in if d = dot \<and> fr \<noteq> [] then Some (g1, ip @ dot # fr)
                       else Some (g1, ip))))"

text \<open>\<open>re.search\<close>: the attempt is made at each position from the left, the first success wins.\<close>

fun re_search_price :: "ustring \<Rightarrow> (ustring option \<times> ustring) option" where
  "re_search_price [] = match_price_at []"
| "re_search_price (c # t) =
     (case match_price_at (c # t) of
        Some m \<Rightarrow> Some m
      | None \<Rightarrow> re_search_price t)"



section \<open>Browser controller: \<open>__aexit__\<close>\<close>

text \<open>
  The three attributes of a controller are handles that are either unset (\<open>None\<close>) or
  set; of a set handle only the outcome of its closing call matters here. The effect of
  a piece of code is the list of closing calls it made, in order, with the call whose
  exception is propagating when the piece ends (\<open>None\<close> when it ended normally).
\<close>

datatype teardown_call = Context_close | Browser_close | Playwright_stop

datatype close_outcome = Returns | Raises

record BrowserController =
  headless :: bool
  playwright :: "close_outcome option"
  browser :: "close_outcome option"
  browser_context :: "close_outcome option"  \<comment> \<open>\<open>self.context\<close>\<close>

type_synonym effect = "teardown_call list \<times> teardown_call option"

definition close_if_set :: "teardown_call \<Rightarrow> close_outcome option \<Rightarrow> effect" where
  \<comment> \<open>\<open>if self.x: await self.x.close()\<close>\<close>
  "close_if_set call h =
     (case h of
        None \<Rightarrow> ([], None)
      | Some Returns \<Rightarrow> ([call], None)
      | Some Raises \<Rightarrow> ([call], Some call))"

definition and_then :: "effect \<Rightarrow> effect \<Rightarrow> effect" where
  \<comment> \<open>two statements in sequence: the second runs only if the first did not raise\<close>
  "and_then a b =
     (case a of
        (t1, Some e) \<Rightarrow> (t1, Some e)
      | (t1, None) \<Rightarrow> (case b of (t2, r) \<Rightarrow> (t1 @ t2, r)))"

definition try_finally :: "effect \<Rightarrow> effect \<Rightarrow> effect" where
  \<comment> \<open>\<open>try: a finally: f\<close>: \<open>f\<close> always runs; its exception replaces the pending one\<close>
  "try_finally a f =
     (case a of (t1, r1) \<Rightarrow>
        (case f of
           (t2, Some e) \<Rightarrow> (t1 @ t2, Some e)
         | (t2, None) \<Rightarrow> (t1 @ t2, r1)))"

definition aexit :: "BrowserController \<Rightarrow> effect" where
  "aexit self =
     try_finally
       (and_then (close_if_set Context_close (browser_context self))
                 (close_if_set Browser_close (browser self)))
       (close_if_set Playwright_stop (playwright self))"


section \<open>Product selection\<close>

record constraints =
  max_price :: "pyfloat option"
  must_have :: "ustring list"

text \<open>
  The loop of \<open>rank\<close> that builds \<open>filtered\<close>; each \<open>continue\<close> drops the product.
  The first argument \<open>lw\<close> is \<open>str.lower\<close>.
\<close>

fun filter_pass :: "(ustring \<Rightarrow> ustring) \<Rightarrow> constraints \<Rightarrow> Product list \<Rightarrow> Product list" where
  "filter_pass lw c [] = []"
| "filter_pass lw c (p # ps) =
     (if (case max_price c of
            None \<Rightarrow> False
          | Some mp \<Rightarrow> (case price p of None \<Rightarrow> False | Some pr \<Rightarrow> float_gt pr mp))
      then filter_pass lw c ps
      else if must_have c \<noteq> []
              \<and> \<not> list_all (\<lambda>k. sublist (lw k) (lw (title p))) (must_have c)
      then filter_pass lw c ps
      else p # filter_pass lw c ps)"

definition score :: "Product \<Rightarrow> rat" where
  "score product =
     (case price product of
        None \<Rightarrow> 0
      | Some pr \<Rightarrow> if pr \<noteq> 0 then 0 + pr else 0)"

definition py_sort :: "('a \<Rightarrow> rat) \<Rightarrow> bool \<Rightarrow> 'a list \<Rightarrow> 'a list" where
  \<comment> \<open>\<open>list.sort(key, reverse)\<close>: a stable sort; with \<open>reverse\<close> the list is reversed,
      sorted and reversed again, so equal keys keep their order in both directions\<close>
  "py_sort key reverse xs =
     (if reverse then rev (sort_key key (rev xs)) else sort_key key xs)"

definition rank ::
  "(ustring \<Rightarrow> ustring) \<Rightarrow> bool \<Rightarrow> Product list \<Rightarrow> constraints \<Rightarrow> Product list" where
  \<comment> \<open>the arguments before the products are \<open>str.lower\<close> and \<open>self.prefer_low_price\<close>\<close>
  "rank lw prefer_low_price products c =
     (let filtered = filter_pass lw c products;
          filtered = (if filtered = [] then products else filtered)
      in py_sort score (\<not> prefer_low_price) filtered)"


section \<open>The planner\<close>

text \<open>
  The plan is the dictionary with the keys \<open>query\<close>, \<open>store\<close>, \<open>max_price\<close> and
  \<open>must_have\<close>; a key that is missing or \<open>null\<close> is \<open>None\<close> (for \<open>must_have\<close>: the
  empty list, which the code treats alike), and a value that is present has the type
  the prompt asks for. The oracle is external: what \<open>json.loads\<close> makes of its answer
  is an argument of \<open>LLMPlanner_plan\<close>, \<open>None\<close> when the answer is not parseable.
\<close>

record Plan =
  query :: "ustring option"
  plan_store :: "ustring option"
  plan_max_price :: "pyfloat option"
  plan_must_have :: "ustring list"

text \<open>
  One attempt of \<open>under\s*\$?([0-9]+)\<close> at the start of \<open>s\<close>, giving the group; as in
  \<open>match_price_at\<close> no quantifier can usefully give a character back.
\<close>

definition match_under_at :: "ustring \<Rightarrow> ustring option" where
  "match_under_at s =
     (if prefix (ustr ''under'') s
      then (let r1 = dropWhile is_space (drop 5 s);
                r2 = (case r1 of [] \<Rightarrow> r1 | c # t \<Rightarrow> if c = dollar then t else r1);
                ds = takeWhile is_digit r2
            in if ds = [] then None else Some ds)
      else None)"

fun re_search_under :: "ustring \<Rightarrow> ustring option" where
  "re_search_under [] = match_under_at []"
| "re_search_under (c # t) =
     (case match_under_at (c # t) of
        Some m \<Rightarrow> Some m
      | None \<Rightarrow> re_search_under t)"

definition fallback_store :: "ustring \<Rightarrow> ustring option" where
  \<comment> \<open>the loop over the three store names: the last name found wins\<close>
  "fallback_store user_request =
     foldl (\<lambda>st s. if sublist s (lower user_request) then Some s else st) None
       [ustr ''amazon'', ustr ''ebay'', ustr ''walmart'']"

definition LLMPlanner_plan :: "Plan option \<Rightarrow> ustring \<Rightarrow> Plan" where
  "LLMPlanner_plan parsed user_request =
     (case parsed of
        Some plan \<Rightarrow> plan
      | None \<Rightarrow>
          \<lparr>query = Some user_request,
           plan_store = fallback_store user_request,
           plan_max_price = map_option (\<lambda>ds. Number (float_of ds)) (re_search_under user_request),
           plan_must_have = []\<rparr>)"


section \<open>The request handlers\<close>

text \<open>
  \<open>HTTPException\<close> carries its status code and its detail. The other exceptions that
  can leave a handler come from the browser automation (a failed launch, a navigation
  or screenshot that times out, a failing teardown), which is the one value
  \<open>BrowserError\<close>, or from the call of the planner and the use of its answer, which is
  \<open>PlannerError\<close>.
\<close>

datatype error = HTTPException nat string | BrowserError | PlannerError

definition SessionNotFound :: error where
  "SessionNotFound = HTTPException 404 ''Session not found''"

definition ProductNotFound :: error where
  "ProductNotFound = HTTPException 400 ''Product not found in session''"

definition NoProductChosen :: error where
  "NoProductChosen = HTTPException 400 ''No product chosen for this session''"

record PlanRequest =
  user_request :: ustring
  site_hint :: "ustring option"
  plan_headless :: "bool option"

record ChooseRequest =
  product_index :: "int option"
  product_url :: "ustring option"
  choose_headless :: "bool option"

record CheckoutRequest =
  shipping :: "(ustring \<times> ustring) list option"
  checkout_headless :: "bool option"

text \<open>
  An entry of \<open>SESSIONS\<close>. The key \<open>chosen\<close> is absent until \<open>choose\<close> writes it, and is
  only read with \<open>get\<close>, so an absent key is \<open>None\<close>.
\<close>

record Session =
  plan :: Plan
  products :: "Product list"
  page_url :: "ustring option"
  last_page_html :: "ustring option"
  chosen :: "Product option"

type_synonym sessions = "ustring \<rightharpoonup> Session"

definition truthy :: "ustring option \<Rightarrow> bool" where
  \<comment> \<open>the truth value of an optional string: neither \<open>None\<close> nor empty\<close>
  "truthy x = (case x of None \<Rightarrow> False | Some s \<Rightarrow> s \<noteq> [])"

definition py_or :: "ustring option \<Rightarrow> ustring option \<Rightarrow> ustring option" where
  "py_or a b = (if truthy a then a else b)"

subsection \<open>\<open>plan_and_search\<close>\<close>

text \<open>
  The browser and the scrapers are external. \<open>launched\<close> says whether entering the
  \<open>async with\<close> block and opening the page returned, \<open>left_cleanly\<close> whether leaving
  the block returned. Each scraper is called at most once in a request, so it is a
  function of the query; \<open>None\<close> stands for an exception leaving the call.
\<close>

record Web =
  launched :: bool
  search_amazon :: "ustring \<Rightarrow> Product list option"
  search_ebay :: "ustring \<Rightarrow> Product list option"
  search_walmart :: "ustring \<Rightarrow> Product list option"
  search_generic :: "ustring \<Rightarrow> ustring \<Rightarrow> Product list option"
  left_cleanly :: bool

definition extend_if_short ::
  "nat \<Rightarrow> Product list option \<Rightarrow> Product list \<Rightarrow> Product list option" where
  \<comment> \<open>\<open>if len(products) < n: products += await further\<close>\<close>
  "extend_if_short n further ps =
     (if length ps < n then map_option (\<lambda>qs. ps @ qs) further else Some ps)"

definition scrape :: "Web \<Rightarrow> ustring option \<Rightarrow> ustring \<Rightarrow> Product list option" where
  "scrape w st q =
     (if st = Some (ustr ''amazon'') then search_amazon w q
      else if st = Some (ustr ''ebay'') then search_ebay w q
      else if st = Some (ustr ''walmart'') then search_walmart w q
      else Option.bind (search_amazon w q) (\<lambda>p1.
           Option.bind (extend_if_short 4 (search_ebay w q) p1) (\<lambda>p2.
           Option.bind (extend_if_short 6 (search_walmart w q) p2) (\<lambda>p3.
           extend_if_short 6 (search_generic w (ustr ''https://www.example.com'') q) p3))))"

type_synonym summary = "nat \<times> ustring \<times> rat option \<times> ustring option \<times> ustring \<times> ustring"

definition summaries :: "Product list \<Rightarrow> summary list" where
  \<comment> \<open>the loop over \<open>enumerate(ranked[:10])\<close>\<close>
  "summaries ranked =
     map (\<lambda>(i, p). (i, title p, price p, currency p, url p, store p))
       (enumerate 0 (take 10 ranked))"

record PlanResponse =
  session_id :: ustring
  response_plan :: Plan
  response_products :: "summary list"

text \<open>
  What the call \<open>planner.plan(req.user_request)\<close> meets: the request to the oracle raises
  (or the answer has no text); the text is not JSON, and the fallback makes the plan; the
  text is a JSON object, which is the plan; the text is JSON of another kind (a list, a
  number), which \<open>plan\<close> returns and on which the handler's first \<open>plan.get\<close> raises.
\<close>

datatype oracle_answer = Call_raises | Not_json | Json_object Plan | Json_other

text \<open>
  The handler from the line after the call of the planner, for a plan that is a
  dictionary. \<open>sid\<close> is the random token the handler draws. The result is what the
  handler returns or raises, with the session table afterwards: the session is written
  inside the \<open>async with\<close> block, so it is there when leaving the block raises.
\<close>

definition search_with_plan ::
  "(ustring \<Rightarrow> ustring) \<Rightarrow> sessions \<Rightarrow> PlanRequest \<Rightarrow> Plan \<Rightarrow> Web \<Rightarrow> ustring
     \<Rightarrow> (error + PlanResponse) \<times> sessions" where
  "search_with_plan lw SESSIONS req pl w sid =
     (let q = (if truthy (query pl) then the (query pl) else user_request req);
          st = py_or (plan_store pl) (site_hint req);
          c = \<lparr>max_price = plan_max_price pl, must_have = plan_must_have pl\<rparr>
      in if \<not> launched w then (Inl BrowserError, SESSIONS)
         else (case scrape w st q of
                 None \<Rightarrow> (Inl BrowserError, SESSIONS)
               | Some found \<Rightarrow>
                   (let ranked = rank lw True found c;
                        stored = SESSIONS(sid \<mapsto> \<lparr>plan = pl, products = ranked,
                                   page_url = None, last_page_html = None, chosen = None\<rparr>)
                    in if left_cleanly w
                       then (Inr \<lparr>session_id = sid, response_plan = pl,
                                  response_products = summaries ranked\<rparr>, stored)
                       else (Inl BrowserError, stored))))"

definition plan_and_search ::
  "(ustring \<Rightarrow> ustring) \<Rightarrow> sessions \<Rightarrow> PlanRequest \<Rightarrow> oracle_answer \<Rightarrow> Web \<Rightarrow> ustring
     \<Rightarrow> (error + PlanResponse) \<times> sessions" where
  "plan_and_search lw SESSIONS req answer w sid =
     (case answer of
        Call_raises \<Rightarrow> (Inl PlannerError, SESSIONS)
      | Not_json \<Rightarrow>
          search_with_plan lw SESSIONS req (LLMPlanner_plan None (user_request req)) w sid
      | Json_object pl \<Rightarrow>
          search_with_plan lw SESSIONS req (LLMPlanner_plan (Some pl) (user_request req)) w sid
      | Json_other \<Rightarrow> (Inl PlannerError, SESSIONS))"

subsection \<open>\<open>choose\<close>\<close>

definition select_product :: "Product list \<Rightarrow> ChooseRequest \<Rightarrow> Product option" where
  \<comment> \<open>the lines that compute \<open>chosen\<close>\<close>
  "select_product ps body =
     (if truthy (product_url body)
      then find (\<lambda>p. Some (url p) = product_url body) ps
      else (case product_index body of
              None \<Rightarrow> None
            | Some i \<Rightarrow> if 0 \<le> i \<and> i < int (length ps) then Some (ps ! nat i) else None))"

text \<open>
  What the browser does in one run of the \<open>async with\<close> block of \<open>choose\<close>: whether the
  controller started and the product page opened, what \<open>attempt_add_to_cart\<close> returned,
  the page address, the encoded screenshot and the page content (\<open>None\<close> when the call
  raised), and whether leaving the block raised.
\<close>

record ChooseRun =
  opened :: bool
  added :: bool
  url_after :: ustring
  screenshot :: "ustring option"
  content :: "ustring option"
  closed :: bool

type_synonym ChooseResponse = "ustring \<times> ustring \<times> ustring"

text \<open>The handler \<open>choose\<close>; the name is taken by the binomial coefficient.\<close>

definition choose_endpoint ::
  "sessions \<Rightarrow> ustring \<Rightarrow> ChooseRequest \<Rightarrow> ChooseRun
     \<Rightarrow> (error + ChooseResponse) \<times> sessions" where
  "choose_endpoint SESSIONS sid body run =
     (case SESSIONS sid of
        None \<Rightarrow> (Inl SessionNotFound, SESSIONS)
      | Some session \<Rightarrow>
          (case select_product (products session) body of
             None \<Rightarrow> (Inl ProductNotFound, SESSIONS)
           | Some ch \<Rightarrow>
               if \<not> opened run then (Inl BrowserError, SESSIONS)
               else (case screenshot run of
                       None \<Rightarrow> (Inl BrowserError, SESSIONS)
                     | Some shot \<Rightarrow>
                         (let s1 = session\<lparr>page_url := Some (url_after run),
                                           chosen := Some ch\<rparr>
                          in case content run of
                               None \<Rightarrow> (Inl BrowserError, SESSIONS(sid \<mapsto> s1))
                             | Some html \<Rightarrow>
                                 (let s2 = s1\<lparr>last_page_html := Some html\<rparr>
                                  in if \<not> closed run
                                     then (Inl BrowserError, SESSIONS(sid \<mapsto> s2))
                                     else (Inr (if added run then ustr ''added''
                                                else ustr ''needs_manual_add'',
                                                url_after run, shot),
                                           SESSIONS(sid \<mapsto> s2)))))))"

subsection \<open>\<open>checkout\<close>\<close>

text \<open>
  One run of the \<open>async with\<close> block of \<open>checkout\<close>: whether the controller started and
  the product page was reached, the results of \<open>proceed_to_checkout\<close> and of
  \<open>fill_shipping\<close>, whether the pause after filling returned, the page address, the
  encoded screenshot, and whether leaving the block raised. The handler writes nothing
  to the session table.
\<close>

record CheckoutRun =
  reached :: bool
  proceeded :: bool
  fill_result :: bool
  settled :: bool
  checkout_url :: ustring
  checkout_screenshot :: "ustring option"
  checkout_closed :: bool

type_synonym CheckoutResponse = "ustring \<times> ustring \<times> bool \<times> ustring \<times> ustring"

definition checkout ::
  "sessions \<Rightarrow> ustring \<Rightarrow> CheckoutRequest \<Rightarrow> CheckoutRun \<Rightarrow> error + CheckoutResponse" where
  "checkout SESSIONS sid body run =
     (case SESSIONS sid of
        None \<Rightarrow> Inl SessionNotFound
      | Some session \<Rightarrow>
          (case chosen session of
             None \<Rightarrow> Inl NoProductChosen
           | Some ch \<Rightarrow>
               if \<not> reached run then Inl BrowserError
               else (let given = (case shipping body of None \<Rightarrow> False | Some sh \<Rightarrow> sh \<noteq> []);
                         filled = (if given then fill_result run else False)
                     in if given \<and> \<not> settled run then Inl BrowserError
                        else (case checkout_screenshot run of
                                None \<Rightarrow> Inl BrowserError
                              | Some shot \<Rightarrow>
                                  if \<not> checkout_closed run then Inl BrowserError
                                  else Inr (if proceeded run then ustr ''at_checkout''
                                            else ustr ''could_not_navigate_to_checkout'',
                                            checkout_url run, filled, shot,
                                            ustr ''Agent stopped before payment. Please verify and complete payment manually in the browser.'')))))"



section \<open>Auxiliary notions and sample data\<close>

text \<open>
  The condition, read off the body of the loop of \<open>rank\<close>, under which a product is
  appended to \<open>filtered\<close>, and the value of \<open>filtered\<close> when the sort is reached.
\<close>

definition passes_filter :: "(ustring \<Rightarrow> ustring) \<Rightarrow> constraints \<Rightarrow> Product \<Rightarrow> bool" where
  "passes_filter lw c p =
     (\<not> (case max_price c of
            None \<Rightarrow> False
          | Some mp \<Rightarrow> (case price p of None \<Rightarrow> False | Some pr \<Rightarrow> float_gt pr mp))
      \<and> (must_have c = []
           \<or> list_all (\<lambda>k. sublist (lw k) (lw (title p))) (must_have c)))"

definition ranking_input ::
  "(ustring \<Rightarrow> ustring) \<Rightarrow> constraints \<Rightarrow> Product list \<Rightarrow> Product list" where
  "ranking_input lw c ps =
     (if filter_pass lw c ps = [] then ps else filter (passes_filter lw c) ps)"

text \<open>Four products in the order a scraper might return them.\<close>

definition item :: "string \<Rightarrow> rat option \<Rightarrow> string \<Rightarrow> Product" where
  "item t pr u =
     \<lparr>title = ustr t, price = pr, currency = map_option (\<lambda>_. ustr ''$'') pr,
      url = ustr u, store = ustr ''amazon'', extra = None\<rparr>"

definition mouse_30 :: Product where "mouse_30 = item ''Gaming Mouse'' (Some 30) ''https://shop.test/1''"
definition mouse_15 :: Product where "mouse_15 = item ''Wireless Mouse'' (Some 15) ''https://shop.test/2''"
definition mouse_unpriced :: Product where "mouse_unpriced = item ''Mouse pad'' None ''https://shop.test/3''"
definition mouse_15b :: Product where "mouse_15b = item ''Travel mouse'' (Some 15) ''https://shop.test/4''"

definition four_mice :: "Product list" where
  "four_mice = [mouse_30, mouse_15, mouse_unpriced, mouse_15b]"

text \<open>A controller after a successful \<open>__aenter__\<close>: all three handles are set.\<close>

definition live_controller :: "close_outcome \<Rightarrow> close_outcome \<Rightarrow> close_outcome \<Rightarrow> BrowserController" where
  "live_controller c b p =
     \<lparr>headless = True, playwright = Some p, browser = Some b, browser_context = Some c\<rparr>"

text \<open>
  A session table with one session that holds the four products and no chosen product,
  requests and browser runs for the handlers, and a scraper that finds twelve products.
\<close>

definition mouse_plan :: Plan where
  "mouse_plan = \<lparr>query = Some (ustr ''wireless mouse''), plan_store = Some (ustr ''amazon''),
                  plan_max_price = Some (Number 20), plan_must_have = []\<rparr>"

definition mouse_session :: Session where
  "mouse_session = \<lparr>plan = mouse_plan, products = four_mice, page_url = None,
                     last_page_html = None, chosen = None\<rparr>"

definition one_session :: sessions where
  "one_session = Map.empty(ustr ''s1'' \<mapsto> mouse_session)"

definition by_index :: "int \<Rightarrow> ChooseRequest" where
  "by_index i = \<lparr>product_index = Some i, product_url = None, choose_headless = Some True\<rparr>"

definition smooth_run :: ChooseRun where
  "smooth_run = \<lparr>opened = True, added = True, url_after = ustr ''https://shop.test/cart'',
                  screenshot = Some (ustr ''iVBORw0KGgo=''), content = Some (ustr ''<html></html>''),
                  closed = True\<rparr>"

definition smooth_checkout :: CheckoutRun where
  "smooth_checkout = \<lparr>reached = True, proceeded = True, fill_result = False, settled = True,
                       checkout_url = ustr ''https://shop.test/checkout'',
                       checkout_screenshot = Some (ustr ''iVBORw0KGgo=''), checkout_closed = True\<rparr>"

definition no_shipping :: CheckoutRequest where
  "no_shipping = \<lparr>shipping = None, checkout_headless = Some True\<rparr>"

definition twelve_items :: "Product list" where
  "twelve_items =
     map (\<lambda>n. \<lparr>title = ustr ''Wireless Mouse'', price = Some (of_nat n),
                currency = Some (ustr ''$''), url = ustr ''https://shop.test/'' @ [65 + n],
                store = ustr ''amazon'', extra = None\<rparr>) [0 ..< 12]"

definition amazon_only :: Web where
  "amazon_only = \<lparr>launched = True, search_amazon = (\<lambda>q. Some twelve_items),
                   search_ebay = (\<lambda>q. Some []), search_walmart = (\<lambda>q. Some []),
                   search_generic = (\<lambda>u q. Some []), left_cleanly = True\<rparr>"

definition mouse_request :: PlanRequest where
  "mouse_request = \<lparr>user_request = ustr ''wireless mouse under $20'', site_hint = None,
                     plan_headless = Some True\<rparr>"


section \<open>Properties of \<open>parse_price\<close>\<close>









lemma re_search_price_head: "match_price_at t = Some m \<Longrightarrow> re_search_price t = Some m"
  by (cases t) auto










section \<open>Properties of \<open>rank\<close>\<close>

lemmas mice_defs = four_mice_def mouse_30_def mouse_15_def mouse_unpriced_def mouse_15b_def item_def

lemma filter_pass_filter: "filter_pass lw c ps = filter (passes_filter lw c) ps"
  by (induction ps) (auto simp: passes_filter_def split: option.splits)

lemma rank_ranking_input:
  "rank lw pl ps c = py_sort score (\<not> pl) (ranking_input lw c ps)"
  by (simp add: rank_def ranking_input_def Let_def filter_pass_filter)

lemma set_py_sort: "set (py_sort key r xs) = set xs"
  by (simp add: py_sort_def)

lemma length_py_sort: "length (py_sort key r xs) = length xs"
  by (simp add: py_sort_def)

lemma ranking_input_Nil: "ranking_input lw c ps = [] \<longleftrightarrow> ps = []"
  by (auto simp: ranking_input_def filter_pass_filter)

text \<open>
  Claim C1. \<open>rank\<close> returns a non-empty list for every non-empty list of products and
  every constraint set: its result is empty exactly when its input is, and when the
  filter pass leaves nothing the whole input list is sorted instead.
\<close>

theorem rank_nonempty:
  "(ps \<noteq> [] \<longrightarrow> rank lw pl ps c \<noteq> [])
   \<and> (rank lw pl ps c = [] \<longleftrightarrow> ps = [])
   \<and> (filter_pass lw c ps = [] \<longrightarrow> rank lw pl ps c = py_sort score (\<not> pl) ps)"
proof -
  have "length (rank lw pl ps c) = length (ranking_input lw c ps)"
    by (simp add: rank_ranking_input length_py_sort)
  then have e: "rank lw pl ps c = [] \<longleftrightarrow> ps = []"
    using ranking_input_Nil [of lw c ps] by (metis length_0_conv)
  have f: "filter_pass lw c ps = [] \<longrightarrow> rank lw pl ps c = py_sort score (\<not> pl) ps"
    by (simp add: rank_def)
  show ?thesis using e f by blast
qed

lemmas eval_defs = rank_def py_sort_def score_def lower_def lower_cp_def ustr_def
  float_gt_def float_le_def sublist_code(3)

theorem rank_nonempty_witness:
  "four_mice \<noteq> []
   \<and> filter_pass lower \<lparr>max_price = Some (Number 1), must_have = [ustr ''Zebra'']\<rparr> four_mice = []
   \<and> rank lower True four_mice \<lparr>max_price = Some (Number 1), must_have = [ustr ''Zebra'']\<rparr>
       = [mouse_unpriced, mouse_15, mouse_15b, mouse_30]"
proof -
  let ?c = "\<lparr>max_price = Some (Number 1), must_have = [ustr ''Zebra'']\<rparr>"
  have h1: "four_mice \<noteq> []" by (simp add: four_mice_def)
  have h2: "filter_pass lower ?c four_mice = []"
    by (simp add: mice_defs eval_defs)
  have "rank lower True four_mice ?c = py_sort score (\<not> True) four_mice"
    using rank_nonempty [where lw = lower and ps = four_mice and pl = True and c = ?c] h2
    by blast
  moreover have "py_sort score (\<not> True) four_mice = [mouse_unpriced, mouse_15, mouse_15b, mouse_30]"
    by (simp add: mice_defs eval_defs)
  ultimately show ?thesis using h1 h2 by simp
qed

lemma passes_filter_price:
  "passes_filter lw c p \<Longrightarrow> max_price c = Some P \<Longrightarrow> price p = Some x \<Longrightarrow> \<not> float_gt x P"
  by (simp add: passes_filter_def)

lemma not_float_gt_le: "P \<noteq> NaN \<Longrightarrow> \<not> float_gt x P \<Longrightarrow> float_le x P"
  by (cases P) (auto simp: float_gt_def float_le_def)

lemma set_rank: "set (rank lw pl ps c) = set (ranking_input lw c ps)"
  by (simp add: rank_ranking_input set_py_sort)

text \<open>
  Claim C2, as stated, fails for the ceiling NaN, which the oracle's JSON can hold: no
  price is greater than NaN, so the filter pass keeps every product, and no price is at
  most NaN either. Here all four products survive and the result has one priced 30.
\<close>

theorem rank_nan_ceiling_counterexample:
  "filter_pass lower \<lparr>max_price = Some NaN, must_have = []\<rparr> four_mice = four_mice
   \<and> four_mice \<noteq> []
   \<and> rank lower True four_mice \<lparr>max_price = Some NaN, must_have = []\<rparr>
       = [mouse_unpriced, mouse_15, mouse_15b, mouse_30]
   \<and> price mouse_30 = Some 30
   \<and> \<not> float_le 30 NaN"
  by (simp add: mice_defs eval_defs)

text \<open>
  Claim C2, amended. With a price ceiling \<open>P\<close> other than NaN (a number or an infinity),
  when at least one product survives the filter pass, every product of the result that
  has a price has a price of at most \<open>P\<close>. For every ceiling, a product without a price
  that meets the keyword test survives the filter pass and is in the result: the ceiling
  never excludes it.
\<close>

theorem rank_respects_max_price:
  "(max_price c = Some P \<and> P \<noteq> NaN \<and> filter_pass lw c ps \<noteq> []
      \<and> p \<in> set (rank lw pl ps c) \<and> price p = Some x
      \<longrightarrow> float_le x P)
   \<and> (max_price c = Some (Number m) \<and> filter_pass lw c ps \<noteq> []
      \<and> p \<in> set (rank lw pl ps c) \<and> price p = Some x
      \<longrightarrow> x \<le> m)
   \<and> (q \<in> set ps \<and> price q = None
        \<and> (must_have c = [] \<or> list_all (\<lambda>k. sublist (lw k) (lw (title q))) (must_have c))
      \<longrightarrow> q \<in> set (filter_pass lw c ps) \<and> q \<in> set (rank lw pl ps c))"
proof (intro conjI impI)
  assume h: "max_price c = Some P \<and> P \<noteq> NaN \<and> filter_pass lw c ps \<noteq> []
      \<and> p \<in> set (rank lw pl ps c) \<and> price p = Some x"
  then have "p \<in> set (filter (passes_filter lw c) ps)"
    by (auto simp: set_rank ranking_input_def)
  then have "passes_filter lw c p" by simp
  then have "\<not> float_gt x P" using h passes_filter_price by blast
  then show "float_le x P" using h not_float_gt_le by blast
next
  assume h: "max_price c = Some (Number m) \<and> filter_pass lw c ps \<noteq> []
      \<and> p \<in> set (rank lw pl ps c) \<and> price p = Some x"
  then have "p \<in> set (filter (passes_filter lw c) ps)"
    by (auto simp: set_rank ranking_input_def)
  then have "passes_filter lw c p" by simp
  then have "\<not> float_gt x (Number m)" using h passes_filter_price by blast
  then show "x \<le> m" by (simp add: float_gt_def)
next
  assume h: "q \<in> set ps \<and> price q = None
        \<and> (must_have c = [] \<or> list_all (\<lambda>k. sublist (lw k) (lw (title q))) (must_have c))"
  then have "passes_filter lw c q"
    by (auto simp: passes_filter_def split: option.splits)
  then show "q \<in> set (filter_pass lw c ps)" using h by (simp add: filter_pass_filter)
  then show "q \<in> set (rank lw pl ps c)"
    by (auto simp: set_rank ranking_input_def filter_pass_filter)
qed

theorem rank_respects_max_price_witness:
  "filter_pass lower \<lparr>max_price = Some (Number 20), must_have = [ustr ''MOUSE'']\<rparr> four_mice
     = [mouse_15, mouse_unpriced, mouse_15b]
   \<and> mouse_15 \<in> set (rank lower True four_mice
                        \<lparr>max_price = Some (Number 20), must_have = [ustr ''MOUSE'']\<rparr>)
   \<and> price mouse_15 = Some 15 \<and> float_le 15 (Number 20) \<and> (15::rat) \<le> 20
   \<and> mouse_unpriced \<in> set four_mice \<and> price mouse_unpriced = None
   \<and> list_all (\<lambda>k. sublist (lower k) (lower (title mouse_unpriced))) [ustr ''MOUSE'']
   \<and> mouse_unpriced \<in> set (rank lower True four_mice
                              \<lparr>max_price = Some (Number 20), must_have = [ustr ''MOUSE'']\<rparr>)"
proof -
  let ?c = "\<lparr>max_price = Some (Number 20), must_have = [ustr ''MOUSE'']\<rparr>"
  have f: "filter_pass lower ?c four_mice = [mouse_15, mouse_unpriced, mouse_15b]"
    by (simp add: mice_defs eval_defs)
  have r: "rank lower True four_mice ?c = [mouse_unpriced, mouse_15, mouse_15b]"
    by (simp add: mice_defs eval_defs)
  have m: "list_all (\<lambda>k. sublist (lower k) (lower (title mouse_unpriced))) [ustr ''MOUSE'']"
    by (simp add: mice_defs eval_defs)
  have p15: "price mouse_15 = Some 15" and pn: "price mouse_unpriced = None"
    by (simp_all add: mice_defs)
  have in4: "mouse_unpriced \<in> set four_mice" by (simp add: four_mice_def)
  note th = rank_respects_max_price [where lw = lower and c = ?c and P = "Number 20"
      and m = 20 and ps = four_mice and p = mouse_15 and pl = True and x = 15
      and q = mouse_unpriced]
  have a: "float_le 15 (Number 20)"
    using th [THEN conjunct1] f r p15 by simp
  have b: "(15::rat) \<le> 20"
    using th [THEN conjunct2, THEN conjunct1] f r p15 by simp
  have c: "mouse_unpriced \<in> set (rank lower True four_mice ?c)"
    using th [THEN conjunct2, THEN conjunct2] in4 pn m by simp
  show ?thesis using a b c f r p15 pn in4 m by simp
qed

lemma score_unpriced: "price p = None \<Longrightarrow> score p = 0"
  by (simp add: score_def)

text \<open>
  Claim C8. In ascending mode the result is sorted by effective price, which is the price
  or zero for a product without one. The sort is stable: for each effective price, the
  products with that price appear in the result in the order they have in the list being
  sorted, which is the input or its filtered sublist. No product with a positive
  effective price comes before a product without a price.
\<close>

theorem rank_ascending_stable:
  "sorted (map score (rank lw True ps c))
   \<and> (\<forall>k. filter (\<lambda>p. score p = k) (rank lw True ps c)
            = filter (\<lambda>p. score p = k) (ranking_input lw c ps))
   \<and> (\<forall>p. score p = (case price p of None \<Rightarrow> 0 | Some x \<Rightarrow> x))
   \<and> (\<forall>i j. i < j \<and> j < length (rank lw True ps c) \<and> price (rank lw True ps c ! j) = None
          \<longrightarrow> score (rank lw True ps c ! i) \<le> 0)"
proof -
  have r: "rank lw True ps c = sort_key score (ranking_input lw c ps)"
    by (simp add: rank_ranking_input py_sort_def)
  have s: "sorted (map score (rank lw True ps c))" by (simp add: r)
  have st: "\<forall>k. filter (\<lambda>p. score p = k) (rank lw True ps c)
            = filter (\<lambda>p. score p = k) (ranking_input lw c ps)"
    by (simp add: r sort_key_stable)
  have sc: "\<forall>p. score p = (case price p of None \<Rightarrow> 0 | Some x \<Rightarrow> x)"
    by (simp add: score_def split: option.splits)
  have fr: "\<forall>i j. i < j \<and> j < length (rank lw True ps c) \<and> price (rank lw True ps c ! j) = None
          \<longrightarrow> score (rank lw True ps c ! i) \<le> 0"
  proof (intro allI impI)
    fix i j
    assume h: "i < j \<and> j < length (rank lw True ps c) \<and> price (rank lw True ps c ! j) = None"
    then have "map score (rank lw True ps c) ! i \<le> map score (rank lw True ps c) ! j"
      using s by (intro sorted_nth_mono) auto
    then have "score (rank lw True ps c ! i) \<le> score (rank lw True ps c ! j)"
      using h by simp
    then show "score (rank lw True ps c ! i) \<le> 0"
      using h by (simp add: score_unpriced)
  qed
  show ?thesis using s st sc fr by blast
qed

theorem rank_ascending_stable_witness:
  "rank lower True four_mice \<lparr>max_price = None, must_have = []\<rparr>
     = [mouse_unpriced, mouse_15, mouse_15b, mouse_30]
   \<and> ranking_input lower \<lparr>max_price = None, must_have = []\<rparr> four_mice = four_mice
   \<and> filter (\<lambda>p. score p = 15) (rank lower True four_mice \<lparr>max_price = None, must_have = []\<rparr>)
       = [mouse_15, mouse_15b]
   \<and> price (rank lower True four_mice \<lparr>max_price = None, must_have = []\<rparr> ! 0) = None"
proof -
  let ?c = "\<lparr>max_price = None, must_have = []\<rparr>"
  have r: "rank lower True four_mice ?c = [mouse_unpriced, mouse_15, mouse_15b, mouse_30]"
    by (simp add: mice_defs eval_defs)
  have b: "ranking_input lower ?c four_mice = four_mice"
    by (simp add: ranking_input_def passes_filter_def mice_defs)
  have "filter (\<lambda>p. score p = 15) (rank lower True four_mice ?c)
      = filter (\<lambda>p. score p = 15) (ranking_input lower ?c four_mice)"
    using rank_ascending_stable [where lw = lower and ps = four_mice and c = ?c] by blast
  also have "\<dots> = [mouse_15, mouse_15b]"
    unfolding b by (simp add: mice_defs score_def)
  finally have f: "filter (\<lambda>p. score p = 15) (rank lower True four_mice ?c)
      = [mouse_15, mouse_15b]" .
  have n: "price (rank lower True four_mice ?c ! 0) = None"
    by (simp add: r mouse_unpriced_def item_def)
  show ?thesis using r b f n by simp
qed


section \<open>Properties of the planner's fallback\<close>

lemmas planner_defs = LLMPlanner_plan_def fallback_store_def match_under_at_def
  ustr_def lower_def lower_cp_def is_space_def is_digit_def dollar_def float_of_def
  digits_value_def sublist_code(3)

text \<open>
  Claim C3, as stated, fails: the fallback puts the whole request into \<open>query\<close>; it has
  no step that shortens it to a search phrase.
\<close>

theorem fallback_query_counterexample:
  "query (LLMPlanner_plan None (ustr ''wireless mouse under $20''))
     \<noteq> Some (ustr ''wireless mouse'')"
  by (simp add: LLMPlanner_plan_def ustr_def)

text \<open>
  Claim C3, amended. When the oracle's answer is not parseable, the plan for the request
  \<open>wireless mouse under $20\<close> has the whole request as its query, no store, the price
  ceiling 20 found by the pattern, and no required keywords. For every request the
  fallback's query is the request itself and its keyword list is empty.
\<close>

theorem fallback_plan:
  "LLMPlanner_plan None (ustr ''wireless mouse under $20'')
     = \<lparr>query = Some (ustr ''wireless mouse under $20''), plan_store = None,
        plan_max_price = Some (Number 20), plan_must_have = []\<rparr>
   \<and> query (LLMPlanner_plan None request) = Some request
   \<and> plan_must_have (LLMPlanner_plan None request) = []"
  by (simp add: planner_defs)

section \<open>Properties of \<open>__aexit__\<close>\<close>

text \<open>
  Claim C4, as stated, fails: when closing the context raises, the browser is not closed.
  Both closing calls are in the body of one \<open>try\<close>; only stopping Playwright is in the
  \<open>finally\<close> part.
\<close>

theorem aexit_counterexample:
  "aexit (live_controller Raises Returns Returns)
     = ([Context_close, Playwright_stop], Some Context_close)
   \<and> Browser_close \<notin> set (fst (aexit (live_controller Raises Returns Returns)))"
  by (simp add: aexit_def try_finally_def and_then_def close_if_set_def live_controller_def)

text \<open>
  Claim C4, amended. The teardown calls are made in the order context, browser,
  Playwright, each only for a handle that is set. Stopping Playwright is attempted on
  every exit, whatever the earlier calls did. Closing the browser is attempted unless
  closing the context raised. When the context closes normally and all handles are set,
  all three calls are made.
\<close>

theorem aexit_calls:
  "fst (aexit self)
     = (if browser_context self = None then [] else [Context_close])
       @ (if browser self = None \<or> browser_context self = Some Raises then []
          else [Browser_close])
       @ (if playwright self = None then [] else [Playwright_stop])
   \<and> (playwright self \<noteq> None \<longrightarrow> Playwright_stop \<in> set (fst (aexit self)))
   \<and> (browser_context self = Some Raises \<longrightarrow> Browser_close \<notin> set (fst (aexit self)))
   \<and> (browser_context self = Some Returns \<and> browser self \<noteq> None \<and> playwright self \<noteq> None
        \<longrightarrow> fst (aexit self) = [Context_close, Browser_close, Playwright_stop])"
  by (auto simp: aexit_def try_finally_def and_then_def close_if_set_def
      split: option.splits close_outcome.splits)

theorem aexit_calls_witness:
  "fst (aexit (live_controller Returns Raises Returns))
     = [Context_close, Browser_close, Playwright_stop]
   \<and> Playwright_stop \<in> set (fst (aexit (live_controller Raises Returns Returns)))
   \<and> Browser_close \<notin> set (fst (aexit (live_controller Raises Returns Returns)))"
proof -
  have a: "fst (aexit (live_controller Returns Raises Returns))
     = [Context_close, Browser_close, Playwright_stop]"
    using aexit_calls [of "live_controller Returns Raises Returns"]
    by (simp add: live_controller_def)
  have b: "Playwright_stop \<in> set (fst (aexit (live_controller Raises Returns Returns)))
      \<and> Browser_close \<notin> set (fst (aexit (live_controller Raises Returns Returns)))"
    using aexit_calls [of "live_controller Raises Returns Returns"]
    by (simp add: live_controller_def)
  show ?thesis using a b by simp
qed


section \<open>Properties of the request handlers\<close>

lemmas handler_defs = SessionNotFound_def ProductNotFound_def NoProductChosen_def

subsection \<open>Selectors that match nothing\<close>

lemma select_product_None_iff:
  "select_product ps body = None
   \<longleftrightarrow> (truthy (product_url body) \<and> (\<forall>p\<in>set ps. Some (url p) \<noteq> product_url body))
       \<or> (\<not> truthy (product_url body)
           \<and> (product_index body = None
               \<or> (\<exists>i. product_index body = Some i \<and> (i < 0 \<or> int (length ps) \<le> i))))"
  by (auto simp: select_product_def find_None_iff split: option.splits)

lemma choose_endpoint_miss_iff:
  assumes "SESSIONS sid = Some session"
  shows "fst (choose_endpoint SESSIONS sid body run)
           = Inl (HTTPException 400 ''Product not found in session'')
         \<longleftrightarrow> select_product (products session) body = None"
  using assms
  by (auto simp: choose_endpoint_def ProductNotFound_def Let_def split: option.splits)

text \<open>
  Claim C5, as stated, fails in its conditions. An index out of range does not make the
  call fail when the request also has an address that a stored product has: the address
  decides. An address that no stored product has does not make the call fail when it is
  the empty string and the index is in range: the index decides. Both calls below
  succeed on the session with four products.
\<close>

theorem choose_conditions_counterexample:
  "one_session (ustr ''s1'') = Some mouse_session
   \<and> length (products mouse_session) = 4
   \<and> fst (choose_endpoint one_session (ustr ''s1'')
            \<lparr>product_index = Some 99, product_url = Some (ustr ''https://shop.test/2''),
             choose_headless = None\<rparr> smooth_run)
       = Inr (ustr ''added'', ustr ''https://shop.test/cart'', ustr ''iVBORw0KGgo='')
   \<and> find (\<lambda>p. url p = []) (products mouse_session) = None
   \<and> fst (choose_endpoint one_session (ustr ''s1'')
            \<lparr>product_index = Some 0, product_url = Some [], choose_headless = None\<rparr> smooth_run)
       = Inr (ustr ''added'', ustr ''https://shop.test/cart'', ustr ''iVBORw0KGgo='')"
  by (simp add: choose_endpoint_def select_product_def truthy_def one_session_def
      mouse_session_def smooth_run_def mice_defs ustr_def)

text \<open>
  Claim C5, amended. On a known session, \<open>choose\<close> fails with the \<open>HTTPException\<close> of
  status 400 and detail \<open>Product not found in session\<close>, and leaves the session table as
  it was, when the request has a non-empty \<open>product_url\<close> that no stored product has,
  or has no (or an empty) \<open>product_url\<close> and an index that is negative or not below the
  number of stored products. These, with the request that has neither an address nor an
  index, are the only requests on a known session that fail with this error. On an
  unknown session id the call fails with an exception of the same class,
  \<open>HTTPException\<close>, of status 404 and detail \<open>Session not found\<close>.
\<close>

theorem choose_miss:
  "(SESSIONS sid = Some session
     \<and> ((truthy (product_url body)
           \<and> (\<forall>p\<in>set (products session). Some (url p) \<noteq> product_url body))
         \<or> (\<not> truthy (product_url body)
             \<and> (\<exists>i. product_index body = Some i \<and> (i < 0 \<or> int (length (products session)) \<le> i))))
    \<longrightarrow> choose_endpoint SESSIONS sid body run
          = (Inl (HTTPException 400 ''Product not found in session''), SESSIONS))
   \<and> (SESSIONS sid = None
        \<longrightarrow> choose_endpoint SESSIONS sid body run
              = (Inl (HTTPException 404 ''Session not found''), SESSIONS))
   \<and> (SESSIONS sid = Some session
        \<longrightarrow> (fst (choose_endpoint SESSIONS sid body run)
                = Inl (HTTPException 400 ''Product not found in session'')
              \<longleftrightarrow> (truthy (product_url body)
                     \<and> (\<forall>p\<in>set (products session). Some (url p) \<noteq> product_url body))
                  \<or> (\<not> truthy (product_url body)
                      \<and> (product_index body = None
                          \<or> (\<exists>i. product_index body = Some i
                                \<and> (i < 0 \<or> int (length (products session)) \<le> i))))))"
proof (intro conjI impI)
  assume h: "SESSIONS sid = Some session
     \<and> ((truthy (product_url body)
           \<and> (\<forall>p\<in>set (products session). Some (url p) \<noteq> product_url body))
         \<or> (\<not> truthy (product_url body)
             \<and> (\<exists>i. product_index body = Some i \<and> (i < 0 \<or> int (length (products session)) \<le> i))))"
  then have "select_product (products session) body = None"
    unfolding select_product_None_iff by blast
  then show "choose_endpoint SESSIONS sid body run
          = (Inl (HTTPException 400 ''Product not found in session''), SESSIONS)"
    using h by (simp add: choose_endpoint_def ProductNotFound_def)
next
  assume "SESSIONS sid = None"
  then show "choose_endpoint SESSIONS sid body run
              = (Inl (HTTPException 404 ''Session not found''), SESSIONS)"
    by (simp add: choose_endpoint_def SessionNotFound_def)
next
  assume k: "SESSIONS sid = Some session"
  show "fst (choose_endpoint SESSIONS sid body run)
                = Inl (HTTPException 400 ''Product not found in session'')
              \<longleftrightarrow> (truthy (product_url body)
                     \<and> (\<forall>p\<in>set (products session). Some (url p) \<noteq> product_url body))
                  \<or> (\<not> truthy (product_url body)
                      \<and> (product_index body = None
                          \<or> (\<exists>i. product_index body = Some i
                                \<and> (i < 0 \<or> int (length (products session)) \<le> i))))"
  proof -
    have "fst (choose_endpoint SESSIONS sid body run)
            = Inl (HTTPException 400 ''Product not found in session'')
          \<longleftrightarrow> select_product (products session) body = None"
      using k by (rule choose_endpoint_miss_iff)
    then show ?thesis unfolding select_product_None_iff .
  qed
qed

theorem choose_miss_witness:
  "one_session (ustr ''s1'') = Some mouse_session
   \<and> \<not> truthy (product_url (by_index (- 1)))
   \<and> product_index (by_index (- 1)) = Some (- 1)
   \<and> choose_endpoint one_session (ustr ''s1'') (by_index (- 1)) smooth_run
       = (Inl (HTTPException 400 ''Product not found in session''), one_session)
   \<and> one_session (ustr ''s2'') = None
   \<and> choose_endpoint one_session (ustr ''s2'') (by_index 0) smooth_run
       = (Inl (HTTPException 404 ''Session not found''), one_session)
   \<and> truthy (Some (ustr ''https://shop.test/2''))
   \<and> find (\<lambda>p. Some (url p) = Some (ustr ''https://shop.test/2'')) (products mouse_session)
       = Some mouse_15
   \<and> fst (choose_endpoint one_session (ustr ''s1'')
            \<lparr>product_index = Some 99, product_url = Some (ustr ''https://shop.test/2''),
             choose_headless = None\<rparr> smooth_run)
       \<noteq> Inl (HTTPException 400 ''Product not found in session'')"
proof -
  let ?both = "\<lparr>product_index = Some 99, product_url = Some (ustr ''https://shop.test/2''),
             choose_headless = None\<rparr>"
  have k: "one_session (ustr ''s1'') = Some mouse_session"
    by (simp add: one_session_def)
  have u: "one_session (ustr ''s2'') = None"
    by (simp add: one_session_def ustr_def)
  have b: "\<not> truthy (product_url (by_index (- 1)))" "product_index (by_index (- 1)) = Some (- 1)"
    by (simp_all add: by_index_def truthy_def)
  have t: "truthy (Some (ustr ''https://shop.test/2''))"
    by (simp add: truthy_def ustr_def)
  have f: "find (\<lambda>p. Some (url p) = Some (ustr ''https://shop.test/2'')) (products mouse_session)
       = Some mouse_15"
    by (simp add: mouse_session_def mice_defs ustr_def)
  then have m: "mouse_15 \<in> set (products mouse_session)
      \<and> Some (url mouse_15) = Some (ustr ''https://shop.test/2'')"
    by (simp add: mouse_session_def mice_defs ustr_def)
  have c1: "choose_endpoint one_session (ustr ''s1'') (by_index (- 1)) smooth_run
       = (Inl (HTTPException 400 ''Product not found in session''), one_session)"
    using choose_miss [where SESSIONS = one_session and sid = "ustr ''s1''"
        and session = mouse_session and body = "by_index (- 1)" and run = smooth_run] k b
    by simp
  have c2: "choose_endpoint one_session (ustr ''s2'') (by_index 0) smooth_run
       = (Inl (HTTPException 404 ''Session not found''), one_session)"
    using choose_miss [where SESSIONS = one_session and sid = "ustr ''s2''"
        and session = mouse_session and body = "by_index 0" and run = smooth_run] u
    by simp
  have c3: "fst (choose_endpoint one_session (ustr ''s1'') ?both smooth_run)
       \<noteq> Inl (HTTPException 400 ''Product not found in session'')"
    using choose_miss [where SESSIONS = one_session and sid = "ustr ''s1''"
        and session = mouse_session and body = ?both and run = smooth_run,
        THEN conjunct2, THEN conjunct2] k t m
    by auto
  show ?thesis using k u b t f c1 c2 c3 by simp
qed


subsection \<open>\<open>checkout\<close> before and after a choice\<close>

lemma search_with_plan_Inr:
  assumes "search_with_plan lw SESSIONS req pl w sid = (Inr resp, SESSIONS')"
  shows "\<exists>found.
           scrape w (py_or (plan_store pl) (site_hint req))
             (if truthy (query pl) then the (query pl) else user_request req) = Some found
         \<and> resp = \<lparr>session_id = sid, response_plan = pl,
                    response_products = summaries (rank lw True found
                       \<lparr>max_price = plan_max_price pl, must_have = plan_must_have pl\<rparr>)\<rparr>
         \<and> SESSIONS' = SESSIONS(sid \<mapsto> \<lparr>plan = pl,
               products = rank lw True found
                       \<lparr>max_price = plan_max_price pl, must_have = plan_must_have pl\<rparr>,
               page_url = None, last_page_html = None, chosen = None\<rparr>)"
  using assms
  by (auto simp: search_with_plan_def Let_def split: option.splits if_splits)

lemma plan_and_search_Inr:
  assumes "plan_and_search lw SESSIONS req answer w sid = (Inr resp, SESSIONS')"
  shows "search_with_plan lw SESSIONS req (response_plan resp) w sid = (Inr resp, SESSIONS')"
proof -
  obtain pl where p: "search_with_plan lw SESSIONS req pl w sid = (Inr resp, SESSIONS')"
    using assms by (auto simp: plan_and_search_def split: oracle_answer.splits)
  then have "response_plan resp = pl"
    using search_with_plan_Inr by fastforce
  then show ?thesis using p by simp
qed

lemma plan_and_search_session:
  assumes "plan_and_search lw SESSIONS req answer w sid = (Inr resp, SESSIONS')"
  shows "\<exists>s. SESSIONS' sid = Some s \<and> chosen s = None"
  using search_with_plan_Inr [OF plan_and_search_Inr [OF assms]] by auto

text \<open>
  Claim C6. For a session without a chosen product, \<open>checkout\<close> fails with the
  invalid-state error (status 400, \<open>No product chosen for this session\<close>); this is so
  for the session \<open>plan_and_search\<close> has just created. For a session with a chosen
  product, \<open>checkout\<close> does not fail with that error.
\<close>

theorem checkout_needs_chosen:
  "(SESSIONS sid = Some session \<and> chosen session = None
      \<longrightarrow> checkout SESSIONS sid body run
            = Inl (HTTPException 400 ''No product chosen for this session''))
   \<and> (SESSIONS sid = Some session \<and> chosen session = Some p
        \<longrightarrow> checkout SESSIONS sid body run
              \<noteq> Inl (HTTPException 400 ''No product chosen for this session''))
   \<and> (plan_and_search lw SESSIONS req answer w sid = (Inr resp, SESSIONS')
        \<longrightarrow> checkout SESSIONS' sid body run
              = Inl (HTTPException 400 ''No product chosen for this session''))"
proof (intro conjI impI)
  assume "SESSIONS sid = Some session \<and> chosen session = None"
  then show "checkout SESSIONS sid body run
            = Inl (HTTPException 400 ''No product chosen for this session'')"
    by (simp add: checkout_def NoProductChosen_def)
next
  assume "SESSIONS sid = Some session \<and> chosen session = Some p"
  then show "checkout SESSIONS sid body run
              \<noteq> Inl (HTTPException 400 ''No product chosen for this session'')"
    by (simp add: checkout_def Let_def split: option.splits)
next
  assume "plan_and_search lw SESSIONS req answer w sid = (Inr resp, SESSIONS')"
  then obtain s where "SESSIONS' sid = Some s" "chosen s = None"
    using plan_and_search_session by blast
  then show "checkout SESSIONS' sid body run
              = Inl (HTTPException 400 ''No product chosen for this session'')"
    by (simp add: checkout_def NoProductChosen_def)
qed

lemma twelve_items_ranked:
  "rank lower True twelve_items \<lparr>max_price = Some (Number 20), must_have = []\<rparr> = twelve_items"
  by (simp add: twelve_items_def rank_def py_sort_def score_def float_gt_def upt_rec)

lemma mouse_request_plan:
  "LLMPlanner_plan None (user_request mouse_request)
     = \<lparr>query = Some (ustr ''wireless mouse under $20''), plan_store = None,
        plan_max_price = Some (Number 20), plan_must_have = []\<rparr>"
  by (simp add: mouse_request_def LLMPlanner_plan_def fallback_store_def match_under_at_def
      ustr_def lower_def lower_cp_def is_space_def is_digit_def dollar_def float_of_def
      digits_value_def sublist_code(3))

lemma mouse_search:
  "plan_and_search lower Map.empty mouse_request Not_json amazon_only (ustr ''tok'')
     = (Inr \<lparr>session_id = ustr ''tok'',
             response_plan = LLMPlanner_plan None (user_request mouse_request),
             response_products = summaries twelve_items\<rparr>,
        Map.empty(ustr ''tok'' \<mapsto>
           \<lparr>plan = LLMPlanner_plan None (user_request mouse_request),
            products = twelve_items, page_url = None, last_page_html = None, chosen = None\<rparr>))"
proof -
  have l: "length twelve_items = 12" by (simp add: twelve_items_def)
  show ?thesis
    unfolding plan_and_search_def search_with_plan_def mouse_request_plan
    by (simp add: twelve_items_ranked l scrape_def extend_if_short_def py_or_def truthy_def
        mouse_request_def amazon_only_def ustr_def Let_def)
qed

theorem checkout_needs_chosen_witness:
  "one_session (ustr ''s1'') = Some mouse_session \<and> chosen mouse_session = None
   \<and> checkout one_session (ustr ''s1'') no_shipping smooth_checkout
       = Inl (HTTPException 400 ''No product chosen for this session'')
   \<and> snd (choose_endpoint one_session (ustr ''s1'') (by_index 0) smooth_run) (ustr ''s1'')
       = Some (mouse_session\<lparr>page_url := Some (url_after smooth_run), chosen := Some mouse_30,
                              last_page_html := content smooth_run\<rparr>)
   \<and> checkout (snd (choose_endpoint one_session (ustr ''s1'') (by_index 0) smooth_run))
         (ustr ''s1'') no_shipping smooth_checkout
       \<noteq> Inl (HTTPException 400 ''No product chosen for this session'')
   \<and> snd (plan_and_search lower Map.empty mouse_request Not_json amazon_only (ustr ''tok''))
       = Map.empty(ustr ''tok'' \<mapsto>
           \<lparr>plan = LLMPlanner_plan None (user_request mouse_request),
            products = twelve_items, page_url = None, last_page_html = None, chosen = None\<rparr>)
   \<and> checkout (snd (plan_and_search lower Map.empty mouse_request Not_json amazon_only
                      (ustr ''tok'')))
         (ustr ''tok'') no_shipping smooth_checkout
       = Inl (HTTPException 400 ''No product chosen for this session'')"
proof -
  let ?after = "snd (choose_endpoint one_session (ustr ''s1'') (by_index 0) smooth_run)"
  let ?s2 = "mouse_session\<lparr>page_url := Some (url_after smooth_run), chosen := Some mouse_30,
                              last_page_html := content smooth_run\<rparr>"
  let ?ps = "plan_and_search lower Map.empty mouse_request Not_json amazon_only (ustr ''tok'')"
  note th = checkout_needs_chosen
  have k: "one_session (ustr ''s1'') = Some mouse_session \<and> chosen mouse_session = None"
    by (simp add: one_session_def mouse_session_def)
  have c1: "checkout one_session (ustr ''s1'') no_shipping smooth_checkout
       = Inl (HTTPException 400 ''No product chosen for this session'')"
    using th [where SESSIONS = one_session and sid = "ustr ''s1''" and session = mouse_session
        and body = no_shipping and run = smooth_checkout] k by blast
  have a: "?after (ustr ''s1'') = Some ?s2 \<and> chosen ?s2 = Some mouse_30"
    by (simp add: choose_endpoint_def select_product_def truthy_def one_session_def
        mouse_session_def by_index_def smooth_run_def four_mice_def)
  have c2: "checkout ?after (ustr ''s1'') no_shipping smooth_checkout
       \<noteq> Inl (HTTPException 400 ''No product chosen for this session'')"
    using th [where SESSIONS = ?after and sid = "ustr ''s1''" and session = ?s2
        and p = mouse_30 and body = no_shipping and run = smooth_checkout] a by blast
  have c3: "checkout (snd ?ps) (ustr ''tok'') no_shipping smooth_checkout
       = Inl (HTTPException 400 ''No product chosen for this session'')"
    using th [where lw = lower and SESSIONS = Map.empty and req = mouse_request
        and answer = Not_json and w = amazon_only and sid = "ustr ''tok''"
        and SESSIONS' = "snd ?ps" and body = no_shipping and run = smooth_checkout] mouse_search
    by simp
  show ?thesis using k c1 a c2 c3 mouse_search by simp
qed

subsection \<open>Selection by address and by index\<close>

lemma select_product_url:
  "product_url body = Some u \<Longrightarrow> u \<noteq> [] \<Longrightarrow> select_product ps body = find (\<lambda>p. url p = u) ps"
  by (simp add: select_product_def truthy_def)

lemma select_product_no_url:
  "\<not> truthy (product_url body) \<Longrightarrow>
   select_product ps body
     = (case product_index body of
          None \<Rightarrow> None
        | Some i \<Rightarrow> if 0 \<le> i \<and> i < int (length ps) then Some (ps ! nat i) else None)"
  by (simp add: select_product_def)

text \<open>
  Claim C9, as stated, fails for a request whose \<open>product_url\<close> is the empty string:
  the handler tests the truth value of the field, so the index decides, and the request
  succeeds although no stored product has the empty address.
\<close>

theorem choose_empty_url_counterexample:
  "find (\<lambda>p. url p = []) (products mouse_session) = None
   \<and> one_session (ustr ''s1'') = Some mouse_session
   \<and> choose_endpoint one_session (ustr ''s1'')
         \<lparr>product_index = Some 0, product_url = Some [], choose_headless = None\<rparr> smooth_run
       = (Inr (ustr ''added'', ustr ''https://shop.test/cart'', ustr ''iVBORw0KGgo=''),
          one_session(ustr ''s1'' \<mapsto>
            mouse_session\<lparr>page_url := Some (ustr ''https://shop.test/cart''),
                           chosen := Some mouse_30,
                           last_page_html := Some (ustr ''<html></html>'')\<rparr>))"
  by (simp add: choose_endpoint_def select_product_def truthy_def one_session_def
      mouse_session_def smooth_run_def mice_defs ustr_def)

text \<open>
  Claim C9, amended. On a known session, a request with a non-empty \<open>product_url\<close> is
  decided by the first stored product with exactly that address, whatever its index
  field holds; when no stored product has the address the request fails with status 400,
  \<open>Product not found in session\<close>, also for an index that is in range. An empty
  \<open>product_url\<close> counts as none: the request is then decided by its index alone, as a
  request without an address is, and with an index in range it selects the product at
  that index and does not fail with that error. A request with neither field fails with
  the same error.
\<close>

theorem choose_by_url:
  "(SESSIONS sid = Some session \<and> product_url body = Some u \<and> u \<noteq> []
      \<longrightarrow> select_product (products session) body = find (\<lambda>p. url p = u) (products session))
   \<and> (SESSIONS sid = Some session \<and> product_url body = Some u \<and> u \<noteq> []
        \<and> (\<forall>p\<in>set (products session). url p \<noteq> u)
      \<longrightarrow> choose_endpoint SESSIONS sid body run
            = (Inl (HTTPException 400 ''Product not found in session''), SESSIONS))
   \<and> (SESSIONS sid = Some session \<and> product_url body = None \<and> product_index body = None
      \<longrightarrow> choose_endpoint SESSIONS sid body run
            = (Inl (HTTPException 400 ''Product not found in session''), SESSIONS))
   \<and> (product_url body = Some [] \<or> product_url body = None
      \<longrightarrow> select_product ps body
            = (case product_index body of
                 None \<Rightarrow> None
               | Some i \<Rightarrow> if 0 \<le> i \<and> i < int (length ps) then Some (ps ! nat i) else None))
   \<and> (SESSIONS sid = Some session \<and> product_url body = Some []
        \<and> product_index body = Some i \<and> 0 \<le> i \<and> i < int (length (products session))
      \<longrightarrow> select_product (products session) body = Some (products session ! nat i)
          \<and> fst (choose_endpoint SESSIONS sid body run)
              \<noteq> Inl (HTTPException 400 ''Product not found in session''))"
proof (intro conjI impI)
  assume "SESSIONS sid = Some session \<and> product_url body = Some u \<and> u \<noteq> []"
  then show "select_product (products session) body = find (\<lambda>p. url p = u) (products session)"
    by (simp add: select_product_url)
next
  assume h: "SESSIONS sid = Some session \<and> product_url body = Some u \<and> u \<noteq> []
        \<and> (\<forall>p\<in>set (products session). url p \<noteq> u)"
  then have "find (\<lambda>p. url p = u) (products session) = None"
    by (simp add: find_None_iff)
  then have "select_product (products session) body = None"
    using h by (simp add: select_product_url)
  then show "choose_endpoint SESSIONS sid body run
            = (Inl (HTTPException 400 ''Product not found in session''), SESSIONS)"
    using h by (simp add: choose_endpoint_def ProductNotFound_def)
next
  assume h: "SESSIONS sid = Some session \<and> product_url body = None \<and> product_index body = None"
  then have "select_product (products session) body = None"
    by (simp add: select_product_def truthy_def)
  then show "choose_endpoint SESSIONS sid body run
            = (Inl (HTTPException 400 ''Product not found in session''), SESSIONS)"
    using h by (simp add: choose_endpoint_def ProductNotFound_def)
next
  assume "product_url body = Some [] \<or> product_url body = None"
  then have "\<not> truthy (product_url body)" by (auto simp: truthy_def)
  then show "select_product ps body
            = (case product_index body of
                 None \<Rightarrow> None
               | Some i \<Rightarrow> if 0 \<le> i \<and> i < int (length ps) then Some (ps ! nat i) else None)"
    by (rule select_product_no_url)
next
  assume h: "SESSIONS sid = Some session \<and> product_url body = Some []
        \<and> product_index body = Some i \<and> 0 \<le> i \<and> i < int (length (products session))"
  then have "\<not> truthy (product_url body)" by (simp add: truthy_def)
  then show sel: "select_product (products session) body = Some (products session ! nat i)"
    using h by (simp add: select_product_no_url)
  have "fst (choose_endpoint SESSIONS sid body run)
            = Inl (HTTPException 400 ''Product not found in session'')
          \<longleftrightarrow> select_product (products session) body = None"
    using h by (intro choose_endpoint_miss_iff) simp
  then show "fst (choose_endpoint SESSIONS sid body run)
              \<noteq> Inl (HTTPException 400 ''Product not found in session'')"
    using sel by simp
qed

theorem choose_by_url_witness:
  "one_session (ustr ''s1'') = Some mouse_session
   \<and> select_product (products mouse_session)
        \<lparr>product_index = Some 0, product_url = Some (ustr ''https://shop.test/2''),
         choose_headless = None\<rparr> = Some mouse_15
   \<and> find (\<lambda>p. url p = ustr ''https://shop.test/9'') (products mouse_session) = None
   \<and> choose_endpoint one_session (ustr ''s1'')
        \<lparr>product_index = Some 0, product_url = Some (ustr ''https://shop.test/9''),
         choose_headless = None\<rparr> smooth_run
       = (Inl (HTTPException 400 ''Product not found in session''), one_session)
   \<and> choose_endpoint one_session (ustr ''s1'')
        \<lparr>product_index = None, product_url = None, choose_headless = None\<rparr> smooth_run
       = (Inl (HTTPException 400 ''Product not found in session''), one_session)
   \<and> select_product (products mouse_session)
        \<lparr>product_index = Some 2, product_url = Some [], choose_headless = None\<rparr>
       = Some mouse_unpriced
   \<and> fst (choose_endpoint one_session (ustr ''s1'')
        \<lparr>product_index = Some 2, product_url = Some [], choose_headless = None\<rparr> smooth_run)
       \<noteq> Inl (HTTPException 400 ''Product not found in session'')"
proof -
  let ?hit = "\<lparr>product_index = Some 0, product_url = Some (ustr ''https://shop.test/2''),
         choose_headless = None\<rparr>"
  let ?miss = "\<lparr>product_index = Some 0, product_url = Some (ustr ''https://shop.test/9''),
         choose_headless = None\<rparr>"
  let ?none = "\<lparr>product_index = None, product_url = None, choose_headless = None\<rparr>"
  let ?blank = "\<lparr>product_index = Some 2, product_url = Some [], choose_headless = None\<rparr>"
  have k: "one_session (ustr ''s1'') = Some mouse_session"
    by (simp add: one_session_def)
  have ne: "ustr ''https://shop.test/2'' \<noteq> []" "ustr ''https://shop.test/9'' \<noteq> []"
    by (simp_all add: ustr_def)
  have f2: "find (\<lambda>p. url p = ustr ''https://shop.test/2'') (products mouse_session) = Some mouse_15"
    by (simp add: mouse_session_def mice_defs ustr_def)
  have f9: "find (\<lambda>p. url p = ustr ''https://shop.test/9'') (products mouse_session) = None"
    by (simp add: mouse_session_def mice_defs ustr_def)
  have l: "products mouse_session ! nat 2 = mouse_unpriced"
      "(2::int) < int (length (products mouse_session))"
    by (simp_all add: mouse_session_def four_mice_def numeral_2_eq_2)
  have a: "select_product (products mouse_session) ?hit = Some mouse_15"
    using choose_by_url [where SESSIONS = one_session and sid = "ustr ''s1''"
        and session = mouse_session and body = ?hit and u = "ustr ''https://shop.test/2''"]
      k ne f2 by simp
  have b: "choose_endpoint one_session (ustr ''s1'') ?miss smooth_run
       = (Inl (HTTPException 400 ''Product not found in session''), one_session)"
    using choose_by_url [where SESSIONS = one_session and sid = "ustr ''s1''"
        and session = mouse_session and body = ?miss and u = "ustr ''https://shop.test/9''"
        and run = smooth_run]
      k ne f9 by (simp add: find_None_iff)
  have c: "choose_endpoint one_session (ustr ''s1'') ?none smooth_run
       = (Inl (HTTPException 400 ''Product not found in session''), one_session)"
    using choose_by_url [where SESSIONS = one_session and sid = "ustr ''s1''"
        and session = mouse_session and body = ?none and run = smooth_run]
      k by simp
  have d: "select_product (products mouse_session) ?blank = Some mouse_unpriced
      \<and> fst (choose_endpoint one_session (ustr ''s1'') ?blank smooth_run)
          \<noteq> Inl (HTTPException 400 ''Product not found in session'')"
    using choose_by_url [where SESSIONS = one_session and sid = "ustr ''s1''"
        and session = mouse_session and body = ?blank and i = 2 and run = smooth_run,
        THEN conjunct2, THEN conjunct2, THEN conjunct2, THEN conjunct2]
      k l by simp
  show ?thesis using k a f9 b c d by simp
qed

subsection \<open>What \<open>plan_and_search\<close> stores and returns\<close>

lemma length_summaries: "length (summaries ranked) = min 10 (length ranked)"
  by (simp add: summaries_def min.commute)

lemma summaries_explicit:
  "summaries ranked
     = map (\<lambda>i. (i, title (ranked ! i), price (ranked ! i), currency (ranked ! i),
                  url (ranked ! i), store (ranked ! i)))
         [0 ..< min 10 (length ranked)]"
proof (rule nth_equalityI)
  show "length (summaries ranked)
      = length (map (\<lambda>i. (i, title (ranked ! i), price (ranked ! i), currency (ranked ! i),
                  url (ranked ! i), store (ranked ! i))) [0 ..< min 10 (length ranked)])"
    by (simp add: length_summaries)
next
  fix i assume "i < length (summaries ranked)"
  then have i: "i < 10" "i < length ranked" by (simp_all add: length_summaries)
  then have "enumerate 0 (take 10 ranked) ! i = (i, ranked ! i)"
    by (simp add: nth_enumerate_eq)
  then show "summaries ranked ! i
      = map (\<lambda>i. (i, title (ranked ! i), price (ranked ! i), currency (ranked ! i),
                  url (ranked ! i), store (ranked ! i))) [0 ..< min 10 (length ranked)] ! i"
    using i by (simp add: summaries_def)
qed

lemma select_product_index:
  "i < length ps \<Longrightarrow>
   select_product ps \<lparr>product_index = Some (int i), product_url = None, choose_headless = h\<rparr>
     = Some (ps ! i)"
  by (simp add: select_product_def truthy_def)

lemma choose_endpoint_selected:
  assumes "SESSIONS sid = Some s" and "select_product (products s) body = Some ch"
  shows "fst (choose_endpoint SESSIONS sid body run) \<noteq> Inl (HTTPException 400 ''Product not found in session'')
       \<and> fst (choose_endpoint SESSIONS sid body run) \<noteq> Inl (HTTPException 404 ''Session not found'')
       \<and> (opened run \<and> screenshot run \<noteq> None
            \<longrightarrow> map_option chosen (snd (choose_endpoint SESSIONS sid body run) sid) = Some (Some ch))"
  using assms
  by (auto simp: choose_endpoint_def Let_def split: option.splits)

text \<open>
  Claim C10. When \<open>plan_and_search\<close> returns, the new session holds the whole result
  of \<open>rank\<close> on the scraped products, and the response lists the first ten of them at
  most: its entry number \<open>i\<close> is the index \<open>i\<close> with the title, price, currency, address
  and store of the stored product at \<open>i\<close>, for every \<open>i\<close> below ten and below the length
  of the stored list. For every index below the length of the stored list, also one of
  ten or more, a \<open>choose\<close> request with that index and no address selects the product at
  the index: it fails neither with the product-not-found nor with the session-not-found
  error, and when the browser run gets as far as the screenshot the product is recorded
  as chosen.
\<close>

theorem plan_and_search_keeps_all:
  "plan_and_search lw SESSIONS req answer w sid = (Inr resp, SESSIONS')
   \<longrightarrow> (\<exists>found s.
          scrape w (py_or (plan_store (response_plan resp)) (site_hint req))
              (if truthy (query (response_plan resp)) then the (query (response_plan resp))
               else user_request req) = Some found
        \<and> SESSIONS' sid = Some s
        \<and> products s = rank lw True found \<lparr>max_price = plan_max_price (response_plan resp),
                                             must_have = plan_must_have (response_plan resp)\<rparr>
        \<and> response_products resp
            = map (\<lambda>i. (i, title (products s ! i), price (products s ! i),
                         currency (products s ! i), url (products s ! i),
                         store (products s ! i)))
                [0 ..< min 10 (length (products s))]
        \<and> length (response_products resp) = min 10 (length (products s))
        \<and> (\<forall>i<length (products s).
              select_product (products s)
                  \<lparr>product_index = Some (int i), product_url = None, choose_headless = h\<rparr>
                = Some (products s ! i)
            \<and> fst (choose_endpoint SESSIONS' sid
                  \<lparr>product_index = Some (int i), product_url = None, choose_headless = h\<rparr> run)
                \<noteq> Inl (HTTPException 400 ''Product not found in session'')
            \<and> fst (choose_endpoint SESSIONS' sid
                  \<lparr>product_index = Some (int i), product_url = None, choose_headless = h\<rparr> run)
                \<noteq> Inl (HTTPException 404 ''Session not found'')
            \<and> (opened run \<and> screenshot run \<noteq> None
                \<longrightarrow> map_option chosen (snd (choose_endpoint SESSIONS' sid
                       \<lparr>product_index = Some (int i), product_url = None, choose_headless = h\<rparr>
                       run) sid) = Some (Some (products s ! i)))))"
proof
  assume a: "plan_and_search lw SESSIONS req answer w sid = (Inr resp, SESSIONS')"
  define pl where "pl = response_plan resp"
  define c where "c = \<lparr>max_price = plan_max_price pl, must_have = plan_must_have pl\<rparr>"
  obtain found where f: "scrape w (py_or (plan_store pl) (site_hint req))
              (if truthy (query pl) then the (query pl) else user_request req) = Some found"
    and r: "resp = \<lparr>session_id = sid, response_plan = pl,
                    response_products = summaries (rank lw True found c)\<rparr>"
    and s': "SESSIONS' = SESSIONS(sid \<mapsto> \<lparr>plan = pl, products = rank lw True found c,
                 page_url = None, last_page_html = None, chosen = None\<rparr>)"
    using search_with_plan_Inr [OF plan_and_search_Inr [OF a]] unfolding pl_def c_def
    by blast
  define s where "s = \<lparr>plan = pl, products = rank lw True found c,
                 page_url = None, last_page_html = None, chosen = None\<rparr>"
  have k: "SESSIONS' sid = Some s" by (simp add: s' s_def)
  have p: "products s = rank lw True found c" by (simp add: s_def)
  have rp: "response_products resp = summaries (products s)"
    using r p by (metis PlanResponse.select_convs(3))
  have idx: "\<forall>i<length (products s).
              select_product (products s)
                  \<lparr>product_index = Some (int i), product_url = None, choose_headless = h\<rparr>
                = Some (products s ! i)
            \<and> fst (choose_endpoint SESSIONS' sid
                  \<lparr>product_index = Some (int i), product_url = None, choose_headless = h\<rparr> run)
                \<noteq> Inl (HTTPException 400 ''Product not found in session'')
            \<and> fst (choose_endpoint SESSIONS' sid
                  \<lparr>product_index = Some (int i), product_url = None, choose_headless = h\<rparr> run)
                \<noteq> Inl (HTTPException 404 ''Session not found'')
            \<and> (opened run \<and> screenshot run \<noteq> None
                \<longrightarrow> map_option chosen (snd (choose_endpoint SESSIONS' sid
                       \<lparr>product_index = Some (int i), product_url = None, choose_headless = h\<rparr>
                       run) sid) = Some (Some (products s ! i)))"
  proof (intro allI impI)
    fix i assume "i < length (products s)"
    then have sel: "select_product (products s)
        \<lparr>product_index = Some (int i), product_url = None, choose_headless = h\<rparr>
        = Some (products s ! i)"
      by (rule select_product_index)
    show "select_product (products s)
                  \<lparr>product_index = Some (int i), product_url = None, choose_headless = h\<rparr>
                = Some (products s ! i)
            \<and> fst (choose_endpoint SESSIONS' sid
                  \<lparr>product_index = Some (int i), product_url = None, choose_headless = h\<rparr> run)
                \<noteq> Inl (HTTPException 400 ''Product not found in session'')
            \<and> fst (choose_endpoint SESSIONS' sid
                  \<lparr>product_index = Some (int i), product_url = None, choose_headless = h\<rparr> run)
                \<noteq> Inl (HTTPException 404 ''Session not found'')
            \<and> (opened run \<and> screenshot run \<noteq> None
                \<longrightarrow> map_option chosen (snd (choose_endpoint SESSIONS' sid
                       \<lparr>product_index = Some (int i), product_url = None, choose_headless = h\<rparr>
                       run) sid) = Some (Some (products s ! i)))"
      using sel choose_endpoint_selected [where SESSIONS = SESSIONS' and sid = sid and s = s
          and run = run, OF k sel] by blast
  qed
  have c1: "scrape w (py_or (plan_store (response_plan resp)) (site_hint req))
              (if truthy (query (response_plan resp)) then the (query (response_plan resp))
               else user_request req) = Some found"
    using f unfolding pl_def .
  have c2: "products s = rank lw True found \<lparr>max_price = plan_max_price (response_plan resp),
                                          must_have = plan_must_have (response_plan resp)\<rparr>"
    using p unfolding c_def pl_def .
  have c3: "response_products resp
            = map (\<lambda>i. (i, title (products s ! i), price (products s ! i),
                         currency (products s ! i), url (products s ! i),
                         store (products s ! i)))
                [0 ..< min 10 (length (products s))]"
    unfolding rp by (rule summaries_explicit)
  have c4: "length (response_products resp) = min 10 (length (products s))"
    unfolding rp by (rule length_summaries)
  show "\<exists>found s.
          scrape w (py_or (plan_store (response_plan resp)) (site_hint req))
              (if truthy (query (response_plan resp)) then the (query (response_plan resp))
               else user_request req) = Some found
        \<and> SESSIONS' sid = Some s
        \<and> products s = rank lw True found \<lparr>max_price = plan_max_price (response_plan resp),
                                             must_have = plan_must_have (response_plan resp)\<rparr>
        \<and> response_products resp
            = map (\<lambda>i. (i, title (products s ! i), price (products s ! i),
                         currency (products s ! i), url (products s ! i),
                         store (products s ! i)))
                [0 ..< min 10 (length (products s))]
        \<and> length (response_products resp) = min 10 (length (products s))
        \<and> (\<forall>i<length (products s).
              select_product (products s)
                  \<lparr>product_index = Some (int i), product_url = None, choose_headless = h\<rparr>
                = Some (products s ! i)
            \<and> fst (choose_endpoint SESSIONS' sid
                  \<lparr>product_index = Some (int i), product_url = None, choose_headless = h\<rparr> run)
                \<noteq> Inl (HTTPException 400 ''Product not found in session'')
            \<and> fst (choose_endpoint SESSIONS' sid
                  \<lparr>product_index = Some (int i), product_url = None, choose_headless = h\<rparr> run)
                \<noteq> Inl (HTTPException 404 ''Session not found'')
            \<and> (opened run \<and> screenshot run \<noteq> None
                \<longrightarrow> map_option chosen (snd (choose_endpoint SESSIONS' sid
                       \<lparr>product_index = Some (int i), product_url = None, choose_headless = h\<rparr>
                       run) sid) = Some (Some (products s ! i))))"
    using c1 k c2 c3 c4 idx by blast
qed

theorem plan_and_search_keeps_all_witness:
  "(\<exists>resp. fst (plan_and_search lower Map.empty mouse_request Not_json amazon_only (ustr ''tok''))
            = Inr resp
        \<and> length (response_products resp) = 10
        \<and> response_products resp ! 9
            = (9, ustr ''Wireless Mouse'', Some 9, Some (ustr ''$''), ustr ''https://shop.test/J'',
               ustr ''amazon''))
   \<and> map_option (\<lambda>s. length (products s))
        (snd (plan_and_search lower Map.empty mouse_request Not_json amazon_only (ustr ''tok''))
           (ustr ''tok''))
       = Some 12
   \<and> fst (choose_endpoint
           (snd (plan_and_search lower Map.empty mouse_request Not_json amazon_only (ustr ''tok'')))
           (ustr ''tok'') (by_index 11) smooth_run)
       \<noteq> Inl (HTTPException 400 ''Product not found in session'')
   \<and> map_option chosen
        (snd (choose_endpoint
           (snd (plan_and_search lower Map.empty mouse_request Not_json amazon_only (ustr ''tok'')))
           (ustr ''tok'') (by_index 11) smooth_run) (ustr ''tok''))
       = Some (Some (twelve_items ! 11))"
proof -
  let ?pl = "LLMPlanner_plan None (user_request mouse_request)"
  let ?resp = "\<lparr>session_id = ustr ''tok'', response_plan = ?pl,
                 response_products = summaries twelve_items\<rparr>"
  let ?stored = "\<lparr>plan = ?pl, products = twelve_items, page_url = None,
                   last_page_html = None, chosen = None\<rparr>"
  let ?S = "Map.empty(ustr ''tok'' \<mapsto> ?stored)"
  have l: "length twelve_items = 12" by (simp add: twelve_items_def)
  obtain found s where s: "?S (ustr ''tok'') = Some s"
    and rp: "response_products ?resp
            = map (\<lambda>i. (i, title (products s ! i), price (products s ! i),
                         currency (products s ! i), url (products s ! i),
                         store (products s ! i)))
                [0 ..< min 10 (length (products s))]"
    and idx: "\<forall>i<length (products s).
        fst (choose_endpoint ?S (ustr ''tok'')
              \<lparr>product_index = Some (int i), product_url = None, choose_headless = Some True\<rparr>
              smooth_run)
          \<noteq> Inl (HTTPException 400 ''Product not found in session'')
        \<and> (opened smooth_run \<and> screenshot smooth_run \<noteq> None
            \<longrightarrow> map_option chosen (snd (choose_endpoint ?S (ustr ''tok'')
                   \<lparr>product_index = Some (int i), product_url = None, choose_headless = Some True\<rparr>
                   smooth_run) (ustr ''tok'')) = Some (Some (products s ! i)))"
    using plan_and_search_keeps_all [where lw = lower and SESSIONS = Map.empty
        and req = mouse_request and answer = Not_json and w = amazon_only
        and sid = "ustr ''tok''" and resp = ?resp and SESSIONS' = ?S and h = "Some True"
        and run = smooth_run] mouse_search
    by blast
  have se: "s = ?stored" using s by simp
  have ps12: "products s = twelve_items" by (simp add: se)
  have b11: "by_index 11 = \<lparr>product_index = Some (int 11), product_url = None,
                              choose_headless = Some True\<rparr>"
    by (simp add: by_index_def)
  have ok: "opened smooth_run \<and> screenshot smooth_run \<noteq> None"
    by (simp add: smooth_run_def)
  have i11: "11 < length (products s)" by (simp add: ps12 l)
  have c1: "length (response_products ?resp) = 10"
    unfolding rp by (simp add: ps12 l)
  have t9: "twelve_items ! 9
      = \<lparr>title = ustr ''Wireless Mouse'', price = Some 9, currency = Some (ustr ''$''),
         url = ustr ''https://shop.test/J'', store = ustr ''amazon'', extra = None\<rparr>"
    by (simp add: twelve_items_def ustr_def)
  have c1': "response_products ?resp ! 9
            = (9, ustr ''Wireless Mouse'', Some 9, Some (ustr ''$''), ustr ''https://shop.test/J'',
               ustr ''amazon'')"
    unfolding rp ps12 by (simp add: l t9)
  have c3: "fst (choose_endpoint ?S (ustr ''tok'') (by_index 11) smooth_run)
       \<noteq> Inl (HTTPException 400 ''Product not found in session'')"
    unfolding b11 using idx i11 by blast
  have c4: "map_option chosen (snd (choose_endpoint ?S (ustr ''tok'') (by_index 11) smooth_run)
         (ustr ''tok'')) = Some (Some (twelve_items ! 11))"
    unfolding b11 using idx i11 ok ps12 by metis
  have c2: "map_option (\<lambda>s. length (products s)) (?S (ustr ''tok'')) = Some 12"
    by (simp add: l)
  show ?thesis unfolding mouse_search using c1 c1' c2 c3 c4 by simp
qed

end
